theory Spec2Isabelle
  imports Main "HOL-Library.Finite_Map"
begin

section \<open>Batch get of dynamo: a shallow embedding of batchget.go\<close>

text \<open>
  The Go file \<^verbatim>\<open>batchget.go\<close> builds a BatchGetItem request from a list of keys and
  iterates over the pages the store returns. The embedding keeps the Go names; a method
  \<^verbatim>\<open>(r T) M\<close> is the function \<open>T_M\<close>. Mutation through a pointer receiver is state
  passing: the function takes the value and returns the updated one.
\<close>

subsection \<open>Errors, panics, outcomes\<close>

text \<open>
  A Go \<^verbatim>\<open>error\<close> value: the sentinel \<^verbatim>\<open>ErrNotFound\<close>, or any other error, told apart
  by its message (\<^verbatim>\<open>fmt.Errorf\<close>, an error of the transport, an error of the decoder).
  A nil error is \<open>None\<close>.
\<close>

datatype error = ErrNotFound | Errorf string

text \<open>The run-time panics the code of this file can raise by itself.\<close>

datatype panic = NilDereference | IndexOutOfRange

datatype 'a outcome = Return 'a | Panic panic

subsection \<open>Wire types of the AWS SDK\<close>

text \<open>
  \<^verbatim>\<open>dynamodb.KeysAndAttributes\<close>, with the fields this file touches. A raw key and a raw
  item are both \<^verbatim>\<open>map[string]*dynamodb.AttributeValue\<close>, the type parameter \<open>'a\<close>.
  A pointer field is an option; a Go map is a finite map, whose length is zero exactly
  when its domain is empty; a read of a missing key gives the zero value.
\<close>

record 'a KeysAndAttributes =
  Keys :: "'a list"
  ProjectionExpression :: "string option"
  ConsistentRead :: "bool option"

record 'a BatchGetItemInput =
  RequestItems :: "(string, 'a KeysAndAttributes option) fmap"

record 'a BatchGetItemOutput =
  Responses :: "(string, 'a list) fmap"
  UnprocessedKeys :: "(string, 'a KeysAndAttributes option) fmap"

text \<open>\<^verbatim>\<open>output.Responses[tableName]\<close>: a missing table reads as the nil slice.\<close>

definition Responses_at :: "'a BatchGetItemOutput \<Rightarrow> string \<Rightarrow> 'a list" where
  "Responses_at outp tableName =
     (case fmlookup (Responses outp) tableName of None \<Rightarrow> [] | Some items \<Rightarrow> items)"

subsection \<open>Table, Batch, BatchGet\<close>

text \<open>
  \<^verbatim>\<open>Table\<close> is declared in another file; this file reads its name only, and reaches the
  client through it. The client is a parameter of the functions that call it.
\<close>

record Table =
  Name :: string

record Batch =
  table :: Table
  hashKey :: string
  rangeKey :: string
  err_Batch :: "error option"

definition too_many_keys :: error where
  "too_many_keys =
     Errorf ''dynamo: batch: you may only provide the name of a range key and hash key. too many keys.''"

text \<open>\<^verbatim>\<open>func (table Table) Batch(hashAndRangeKeyName ...string) Batch\<close>\<close>

definition Table_Batch :: "Table \<Rightarrow> string list \<Rightarrow> Batch" where
  "Table_Batch tbl hashAndRangeKeyName =
     (let b = \<lparr>table = tbl, hashKey = [], rangeKey = [], err_Batch = None\<rparr>
      in case hashAndRangeKeyName of
           [] \<Rightarrow> b
         | [h] \<Rightarrow> b\<lparr>hashKey := h\<rparr>
         | [h, r] \<Rightarrow> b\<lparr>hashKey := h, rangeKey := r\<rparr>
         | _ \<Rightarrow> b\<lparr>err_Batch := Some too_many_keys\<rparr>)"

text \<open>
  \<^verbatim>\<open>Keyed\<close> is an interface with the two methods \<^verbatim>\<open>HashKey()\<close> and \<^verbatim>\<open>RangeKey()\<close>, each
  returning an \<^verbatim>\<open>interface{}\<close>: a value of type \<open>'v\<close>, or nil.
\<close>

record 'v Keyed =
  HashKey :: "'v option"
  RangeKey :: "'v option"

text \<open>
  \<^verbatim>\<open>Query\<close> and its methods are declared in another file. They are parameters here:
  \<open>'q\<close> is the state of one \<^verbatim>\<open>*Query\<close>, and a method that mutates its receiver returns
  the new state.
\<close>

record ('q, 'v, 'a) QueryOps =
  Table_Get :: "Table \<Rightarrow> string \<Rightarrow> 'v option \<Rightarrow> 'q"
  Query_Range_Equal :: "'q \<Rightarrow> string \<Rightarrow> 'v option \<Rightarrow> 'q"
  Query_Project :: "'q \<Rightarrow> string \<Rightarrow> 'q"
  Query_err :: "'q \<Rightarrow> error option"
  Query_projection :: "'q \<Rightarrow> string"
  Query_keysAndAttribs :: "'q \<Rightarrow> 'a KeysAndAttributes option"
  Query_keys :: "'q \<Rightarrow> 'a"

record 'q BatchGet =
  batch :: Batch
  reqs :: "'q list"
  projection :: string
  consistent :: bool
  err_BatchGet :: "error option"

text \<open>\<^verbatim>\<open>func (bg *BatchGet) setError(err error)\<close>: the first error wins.\<close>

definition BatchGet_setError :: "'q BatchGet \<Rightarrow> error option \<Rightarrow> 'q BatchGet" where
  "BatchGet_setError bg e =
     (if err_BatchGet bg = None then bg\<lparr>err_BatchGet := e\<rparr> else bg)"

text \<open>\<^verbatim>\<open>func (bg *BatchGet) add(keys []Keyed)\<close>: the loop over the keys.\<close>

fun BatchGet_add ::
  "('q, 'v, 'a) QueryOps \<Rightarrow> 'q BatchGet \<Rightarrow> 'v Keyed list \<Rightarrow> 'q BatchGet" where
  "BatchGet_add D bg [] = bg"
| "BatchGet_add D bg (key # keys) =
     (let get = Table_Get D (table (batch bg)) (hashKey (batch bg)) (HashKey key);
          rk = RangeKey key
      in if rangeKey (batch bg) \<noteq> [] \<and> rk \<noteq> None
         then (let get' = Query_Range_Equal D get (rangeKey (batch bg)) rk;
                   bg' = BatchGet_setError bg (Query_err D get')
               in BatchGet_add D (bg'\<lparr>reqs := reqs bg' @ [get']\<rparr>) keys)
         else BatchGet_add D (bg\<lparr>reqs := reqs bg @ [get]\<rparr>) keys)"

text \<open>\<^verbatim>\<open>func (b Batch) Get(keys ...Keyed) *BatchGet\<close>\<close>

definition Batch_Get ::
  "('q, 'v, 'a) QueryOps \<Rightarrow> Batch \<Rightarrow> 'v Keyed list \<Rightarrow> 'q BatchGet" where
  "Batch_Get D b keys =
     BatchGet_add D
       \<lparr>batch = b, reqs = [], projection = [], consistent = False, err_BatchGet = err_Batch b\<rparr>
       keys"

text \<open>\<^verbatim>\<open>func (bg *BatchGet) And(keys ...Keyed) *BatchGet\<close>\<close>

definition BatchGet_And ::
  "('q, 'v, 'a) QueryOps \<Rightarrow> 'q BatchGet \<Rightarrow> 'v Keyed list \<Rightarrow> 'q BatchGet" where
  "BatchGet_And D bg keys = BatchGet_add D bg keys"

text \<open>\<^verbatim>\<open>func (bg *BatchGet) Consistent(on bool) *BatchGet\<close>\<close>

definition BatchGet_Consistent :: "'q BatchGet \<Rightarrow> bool \<Rightarrow> 'q BatchGet" where
  "BatchGet_Consistent bg on = bg\<lparr>consistent := on\<rparr>"

text \<open>
  \<^verbatim>\<open>func (bg *BatchGet) input() *dynamodb.BatchGetItemInput\<close>, in its three parts.
  The first loop calls \<^verbatim>\<open>get.Project(get.projection)\<close> on every request and records its
  error; the requests are pointers, so the loop rebuilds the list of their states.
\<close>

fun input_project ::
  "('q, 'v, 'a) QueryOps \<Rightarrow> 'q BatchGet \<Rightarrow> 'q list \<Rightarrow> 'q BatchGet" where
  "input_project D bg [] = bg"
| "input_project D bg (get # gets) =
     (let get' = Query_Project D get (Query_projection D get);
          bg' = BatchGet_setError bg (Query_err D get')
      in input_project D (bg'\<lparr>reqs := reqs bg' @ [get']\<rparr>) gets)"

text \<open>
  The second loop merges the requests: the first one gives the descriptor
  (\<^verbatim>\<open>if kas == nil { kas = get.keysAndAttribs(); continue }\<close>), every later one appends
  its key.
\<close>

fun input_merge ::
  "('q, 'v, 'a) QueryOps \<Rightarrow> 'a KeysAndAttributes option \<Rightarrow> 'q list
     \<Rightarrow> 'a KeysAndAttributes option" where
  "input_merge D kas [] = kas"
| "input_merge D kas (get # gets) =
     (case kas of
        None \<Rightarrow> input_merge D (Query_keysAndAttribs D get) gets
      | Some k \<Rightarrow> input_merge D (Some (k\<lparr>Keys := Keys k @ [Query_keys D get]\<rparr>)) gets)"

text \<open>
  The two assignments through \<^verbatim>\<open>kas\<close> dereference it: on a nil \<^verbatim>\<open>kas\<close> they panic.
  The result carries the state of the \<^verbatim>\<open>BatchGet\<close> at the return or at the panic.
\<close>

definition BatchGet_input ::
  "('q, 'v, 'a) QueryOps \<Rightarrow> 'q BatchGet \<Rightarrow> 'a BatchGetItemInput outcome \<times> 'q BatchGet" where
  "BatchGet_input D bg0 =
     (let bg = (if projection bg0 \<noteq> []
                then input_project D (bg0\<lparr>reqs := []\<rparr>) (reqs bg0) else bg0);
          kas = input_merge D None (reqs bg)
      in case (if projection bg \<noteq> []
               then (case kas of
                       None \<Rightarrow> Panic NilDereference
                     | Some k \<Rightarrow> Return (Some (k\<lparr>ProjectionExpression := Some (projection bg)\<rparr>)))
               else Return kas) of
           Panic p \<Rightarrow> (Panic p, bg)
         | Return kas1 \<Rightarrow>
             (case (if consistent bg
                    then (case kas1 of
                            None \<Rightarrow> Panic NilDereference
                          | Some k \<Rightarrow> Return (Some (k\<lparr>ConsistentRead := Some (consistent bg)\<rparr>)))
                    else Return kas1) of
                Panic p \<Rightarrow> (Panic p, bg)
              | Return kas2 \<Rightarrow>
                  (Return \<lparr>RequestItems = fmupd (Name (table (batch bg))) kas2 fmempty\<rparr>, bg)))"

subsection \<open>The world outside: the client, the clock\<close>

text \<open>
  A call of \<^verbatim>\<open>client.BatchGetItem\<close> and a \<^verbatim>\<open>time.Sleep\<close> are the two effects of the
  iterator. The world holds the state of the remote side (of any type \<open>'w\<close>) and the
  trace of the effects so far, oldest first. The client is any function from the remote
  state and the request to a reply (a response pointer, which may be nil, and an error)
  and the next remote state. \<open>Sleep n\<close> is the sleep for the \<open>n\<close>-th interval that
  \<^verbatim>\<open>backoff.NextBackOff()\<close> hands out.
\<close>

datatype 'a event = Sleep nat | BatchGetItem "'a BatchGetItemInput"

record ('a, 'w) world =
  remote :: 'w
  trace :: "'a event list"

type_synonym ('a, 'w) client =
  "'w \<Rightarrow> 'a BatchGetItemInput \<Rightarrow> ('a BatchGetItemOutput option \<times> error option) \<times> 'w"

subsection \<open>The iterator\<close>

text \<open>
  \<^verbatim>\<open>type bgIter struct\<close>; its fields \<^verbatim>\<open>input\<close> and \<^verbatim>\<open>output\<close> are \<open>input_itr\<close> and
  \<open>output_itr\<close> here. The field \<open>backoff\<close> counts the calls of \<^verbatim>\<open>NextBackOff\<close>;
  with \<^verbatim>\<open>MaxElapsedTime = 0\<close> the backoff never stops. \<open>unmarshal\<close> takes the raw item and
  the value behind \<^verbatim>\<open>out\<close> and returns the error and the new value behind \<^verbatim>\<open>out\<close>.
\<close>

record ('a, 'q, 'out) bgIter =
  bg :: "'q BatchGet"
  input_itr :: "'a BatchGetItemInput option"
  output_itr :: "'a BatchGetItemOutput option"
  err :: "error option"
  idx :: nat
  backoff :: nat
  unmarshal :: "'a \<Rightarrow> 'out \<Rightarrow> error option \<times> 'out"

text \<open>\<^verbatim>\<open>func newBGIter(bg *BatchGet, fn unmarshalFunc, err error) *bgIter\<close>\<close>

definition newBGIter ::
  "'q BatchGet \<Rightarrow> ('a \<Rightarrow> 'out \<Rightarrow> error option \<times> 'out) \<Rightarrow> error option \<Rightarrow> ('a, 'q, 'out) bgIter" where
  "newBGIter b fn e =
     \<lparr>bg = b, input_itr = None, output_itr = None, err = e, idx = 0, backoff = 0, unmarshal = fn\<rparr>"

text \<open>
  Modelled from the spec: the function \<^verbatim>\<open>retry\<close> is declared in another file. The spec
  says of it: the transport call is "retried by an outer policy on error", and a failure
  that exhausts that policy is the error of the call. So \<open>retry\<close> runs the closure; on a nil
  error it returns nil; on an error it asks the policy (a parameter: the number of the
  attempt and the error) and either runs the closure again or returns the error. The
  loop may run forever: then the result is \<open>None\<close>.
\<close>

partial_function (option) retry ::
  "(nat \<Rightarrow> error \<Rightarrow> bool) \<Rightarrow> ('s \<Rightarrow> error option \<times> 's) \<Rightarrow> nat \<Rightarrow> 's
     \<Rightarrow> (error option \<times> 's) option" where
  "retry canRetry f n s =
     (case f s of
        (None, s') \<Rightarrow> Some (None, s')
      | (Some e, s') \<Rightarrow>
          if canRetry n e then retry canRetry f (Suc n) s' else Some (Some e, s'))"

text \<open>
  The closure of \<^verbatim>\<open>Next\<close>:
  \<^verbatim>\<open>itr.output, err = itr.bg.batch.table.db.client.BatchGetItem(itr.input); return err\<close>.
  \<open>inp\<close> is the request \<^verbatim>\<open>itr.input\<close> points to.
\<close>

definition call_BatchGetItem ::
  "('a, 'w) client \<Rightarrow> 'a BatchGetItemInput
     \<Rightarrow> ('a, 'q, 'out) bgIter \<times> ('a, 'w) world
     \<Rightarrow> error option \<times> ('a, 'q, 'out) bgIter \<times> ('a, 'w) world" where
  "call_BatchGetItem client inp s =
     (case s of (itr, w) \<Rightarrow>
        (case client (remote w) inp of
           ((outp, e), r') \<Rightarrow>
             (e, itr\<lparr>output_itr := outp\<rparr>,
                 w\<lparr>remote := r', trace := trace w @ [BatchGetItem inp]\<rparr>)))"

text \<open>
  \<^verbatim>\<open>func (itr *bgIter) Next(out interface{}) bool\<close>. The result is \<open>None\<close> when the call
  never returns; otherwise it is the returned boolean or the panic, with the iterator,
  the value behind \<^verbatim>\<open>out\<close> and the world as the call leaves them.
\<close>

definition bgIter_Next ::
  "('q, 'v, 'a) QueryOps \<Rightarrow> ('a, 'w) client \<Rightarrow> (nat \<Rightarrow> error \<Rightarrow> bool)
     \<Rightarrow> ('a, 'q, 'out) bgIter \<Rightarrow> 'out \<Rightarrow> ('a, 'w) world
     \<Rightarrow> (bool outcome \<times> ('a, 'q, 'out) bgIter \<times> 'out \<times> ('a, 'w) world) option" where
  "bgIter_Next D client canRetry itr out w =
     (if err itr \<noteq> None then Some (Return False, itr, out, w)
      else
        let tableName = Name (table (batch (bg itr))) in
        case (case output_itr itr of
                None \<Rightarrow> None
              | Some outp \<Rightarrow>
                  if idx itr < length (Responses_at outp tableName)
                  then Some (Responses_at outp tableName ! idx itr) else None) of
          Some item \<Rightarrow>
            (case unmarshal itr item out of
               (e, out') \<Rightarrow>
                 Some (Return (e = None), itr\<lparr>err := e, idx := idx itr + 1\<rparr>, out', w))
        | None \<Rightarrow>
            (case (case input_itr itr of
                     None \<Rightarrow> BatchGet_input D (bg itr)
                   | Some inp \<Rightarrow> (Return inp, bg itr)) of
               (Panic p, bg') \<Rightarrow> Some (Panic p, itr\<lparr>bg := bg'\<rparr>, out, w)
             | (Return inp, bg') \<Rightarrow>
                 let itr1 = itr\<lparr>bg := bg', input_itr := Some inp\<rparr> in
                 case (case output_itr itr1 of
                         None \<Rightarrow> Some (inp, itr1, w)
                       | Some outp \<Rightarrow>
                           if idx itr1 \<ge> length (Responses_at outp tableName)
                           then (if fmdom (UnprocessedKeys outp) = {||} then None
                                 else
                                   let inp' = inp\<lparr>RequestItems := UnprocessedKeys outp\<rparr> in
                                   Some (inp',
                                         itr1\<lparr>input_itr := Some inp', idx := 0,
                                              backoff := Suc (backoff itr1)\<rparr>,
                                         w\<lparr>trace := trace w @ [Sleep (backoff itr1)]\<rparr>))
                           else Some (inp, itr1, w)) of
                   None \<Rightarrow> Some (Return False, itr1, out, w)
                 | Some (inp2, itr2, w2) \<Rightarrow>
                     (case retry canRetry (call_BatchGetItem client inp2) 0 (itr2, w2) of
                        None \<Rightarrow> None
                      | Some (e, itr3', w3) \<Rightarrow>
                          let itr3 = itr3'\<lparr>err := e\<rparr> in
                          case output_itr itr3 of
                            None \<Rightarrow> Some (Panic NilDereference, itr3, out, w3)
                          | Some outp \<Rightarrow>
                              let items = Responses_at outp tableName in
                              if err itr3 \<noteq> None \<or> length items = 0
                              then Some (Return False,
                                         (if idx itr3 = 0 then itr3\<lparr>err := Some ErrNotFound\<rparr>
                                          else itr3), out, w3)
                              else if idx itr3 < length items
                              then (case unmarshal itr3 (items ! idx itr3) out of
                                      (e', out') \<Rightarrow>
                                        Some (Return (e' = None),
                                              itr3\<lparr>err := e', idx := idx itr3 + 1\<rparr>, out', w3))
                              else Some (Panic IndexOutOfRange, itr3, out, w3))))"

text \<open>\<^verbatim>\<open>func (itr *bgIter) Err() error\<close>\<close>

definition bgIter_Err :: "('a, 'q, 'out) bgIter \<Rightarrow> error option" where
  "bgIter_Err itr = err itr"

text \<open>
  \<^verbatim>\<open>for iter.Next(out) { }\<close>, the loop of \<^verbatim>\<open>All\<close>: it runs as long as \<^verbatim>\<open>Next\<close> returns
  true, and forever when \<^verbatim>\<open>Next\<close> never returns false.
\<close>

partial_function (option) All_loop ::
  "('q, 'v, 'a) QueryOps \<Rightarrow> ('a, 'w) client \<Rightarrow> (nat \<Rightarrow> error \<Rightarrow> bool)
     \<Rightarrow> ('a, 'q, 'out) bgIter \<Rightarrow> 'out \<Rightarrow> ('a, 'w) world
     \<Rightarrow> (unit outcome \<times> ('a, 'q, 'out) bgIter \<times> 'out \<times> ('a, 'w) world) option" where
  "All_loop D client canRetry itr out w =
     (case bgIter_Next D client canRetry itr out w of
        None \<Rightarrow> None
      | Some (r, itr', out', w') \<Rightarrow>
          (case r of
             Panic p \<Rightarrow> Some (Panic p, itr', out', w')
           | Return b \<Rightarrow>
               if b then All_loop D client canRetry itr' out' w'
               else Some (Return (), itr', out', w')))"

text \<open>
  \<^verbatim>\<open>func (bg *BatchGet) All(out interface{}) error\<close>. \<^verbatim>\<open>unmarshalAppend\<close> is declared in
  another file and is a parameter. The iterator holds the pointer \<^verbatim>\<open>bg\<close>, so the
  \<^verbatim>\<open>BatchGet\<close> after the call is the one the iterator ends with.
\<close>

definition BatchGet_All ::
  "('q, 'v, 'a) QueryOps \<Rightarrow> ('a, 'w) client \<Rightarrow> (nat \<Rightarrow> error \<Rightarrow> bool)
     \<Rightarrow> ('a \<Rightarrow> 'out \<Rightarrow> error option \<times> 'out)
     \<Rightarrow> 'q BatchGet \<Rightarrow> 'out \<Rightarrow> ('a, 'w) world
     \<Rightarrow> (error option outcome \<times> 'q BatchGet \<times> 'out \<times> ('a, 'w) world) option" where
  "BatchGet_All D client canRetry unmarshalAppend b out w =
     (let iter = newBGIter b unmarshalAppend (err_BatchGet b) in
      case All_loop D client canRetry iter out w of
        None \<Rightarrow> None
      | Some (r, iter', out', w') \<Rightarrow>
          (case r of
             Panic p \<Rightarrow> Some (Panic p, bg iter', out', w')
           | Return u \<Rightarrow> Some (Return (bgIter_Err iter'), bg iter', out', w')))"

text \<open>\<^verbatim>\<open>func (bg *BatchGet) Iter() Iter\<close>; \<^verbatim>\<open>unmarshalItem\<close> is a parameter as well.\<close>

definition BatchGet_Iter ::
  "('a \<Rightarrow> 'out \<Rightarrow> error option \<times> 'out) \<Rightarrow> 'q BatchGet \<Rightarrow> ('a, 'q, 'out) bgIter" where
  "BatchGet_Iter unmarshalItem b = newBGIter b unmarshalItem (err_BatchGet b)"

subsection \<open>Notions the properties are stated with\<close>

text \<open>
  The items of the page the iterator holds, under the table it reads: the slice that
  \<^verbatim>\<open>itr.output.Responses[tableName]\<close> denotes, empty while there is no page.
\<close>

definition current_items :: "('a, 'q, 'out) bgIter \<Rightarrow> 'a list" where
  "current_items itr =
     (case output_itr itr of
        None \<Rightarrow> []
      | Some outp \<Rightarrow> Responses_at outp (Name (table (batch (bg itr)))))"

text \<open>The cursor lies between 0 and the length of the current page.\<close>

definition cursor_ok :: "('a, 'q, 'out) bgIter \<Rightarrow> bool" where
  "cursor_ok itr = (idx itr \<le> length (current_items itr))"

text \<open>
  A caller that calls \<^verbatim>\<open>Next\<close> \<open>n\<close> times in a row, whatever each call answers; the
  answers are collected in order.
\<close>

fun Next_calls ::
  "('q, 'v, 'a) QueryOps \<Rightarrow> ('a, 'w) client \<Rightarrow> (nat \<Rightarrow> error \<Rightarrow> bool) \<Rightarrow> nat
     \<Rightarrow> ('a, 'q, 'out) bgIter \<Rightarrow> 'out \<Rightarrow> ('a, 'w) world
     \<Rightarrow> (bool outcome list \<times> ('a, 'q, 'out) bgIter \<times> 'out \<times> ('a, 'w) world) option" where
  "Next_calls D client canRetry 0 itr out w = Some ([], itr, out, w)"
| "Next_calls D client canRetry (Suc n) itr out w =
     (case bgIter_Next D client canRetry itr out w of
        None \<Rightarrow> None
      | Some (r, itr', out', w') \<Rightarrow>
          (case Next_calls D client canRetry n itr' out' w' of
             None \<Rightarrow> None
           | Some (rs, itr'', out'', w'') \<Rightarrow> Some (r # rs, itr'', out'', w'')))"

text \<open>
  The transport answers the requests of one batch with the pages \<open>pages\<close>, in this order
  and without an error: the first page to the request \<open>inp\<close>, every later page to the
  request for the keys that the page before it left unprocessed.
\<close>

fun serves ::
  "('a, 'w) client \<Rightarrow> 'w \<Rightarrow> 'a BatchGetItemInput \<Rightarrow> 'a BatchGetItemOutput list \<Rightarrow> bool" where
  "serves client r inp [] = True"
| "serves client r inp (page # pages) =
     (case client r inp of
        ((Some outp, None), r') \<Rightarrow>
          outp = page \<and> serves client r' (inp\<lparr>RequestItems := UnprocessedKeys page\<rparr>) pages
      | _ \<Rightarrow> False)"

text \<open>
  A paging of a result: at least one page, at least one item of the table on every page,
  unprocessed keys on every page but the last, none on the last.
\<close>

fun paged :: "string \<Rightarrow> 'a BatchGetItemOutput list \<Rightarrow> bool" where
  "paged tableName [] = False"
| "paged tableName [page] =
     (Responses_at page tableName \<noteq> [] \<and> fmdom (UnprocessedKeys page) = {||})"
| "paged tableName (page # pages) =
     (Responses_at page tableName \<noteq> [] \<and> fmdom (UnprocessedKeys page) \<noteq> {||}
      \<and> paged tableName pages)"

text \<open>All items of the pages, in the order of their return.\<close>

definition items_of :: "string \<Rightarrow> 'a BatchGetItemOutput list \<Rightarrow> 'a list" where
  "items_of tableName pages = concat (map (\<lambda>page. Responses_at page tableName) pages)"

subsection \<open>Concrete instances\<close>

text \<open>
  A small instance to run the functions on: raw keys, raw items and key values are
  numbers, a query is the hash value it looks up, the client replays a script of
  replies, the retry policy gives up at once, and unmarshalling appends the raw item.
\<close>

definition ex_ops :: "(nat, nat, nat) QueryOps" where
  "ex_ops =
     \<lparr>Table_Get = (\<lambda>tbl name v. case v of None \<Rightarrow> 0 | Some k \<Rightarrow> k),
      Query_Range_Equal = (\<lambda>q name v. q),
      Query_Project = (\<lambda>q path. q),
      Query_err = (\<lambda>q. None),
      Query_projection = (\<lambda>q. []),
      Query_keysAndAttribs =
        (\<lambda>q. Some \<lparr>Keys = [q], ProjectionExpression = None, ConsistentRead = None\<rparr>),
      Query_keys = (\<lambda>q. q)\<rparr>"

fun scripted ::
  "(nat, (nat BatchGetItemOutput option \<times> error option) list) client" where
  "scripted [] inp = ((None, Some (Errorf ''connection closed'')), [])"
| "scripted (reply # replies) inp = (reply, replies)"

definition never_retry :: "nat \<Rightarrow> error \<Rightarrow> bool" where
  "never_retry n e = False"

definition append_item :: "nat \<Rightarrow> nat list \<Rightarrow> error option \<times> nat list" where
  "append_item item out = (None, out @ [item])"

definition ex_table :: Table where
  "ex_table = \<lparr>Name = ''T''\<rparr>"

definition ex_keys :: "nat list \<Rightarrow> nat KeysAndAttributes" where
  "ex_keys ks = \<lparr>Keys = ks, ProjectionExpression = None, ConsistentRead = None\<rparr>"

text \<open>A page with the given items, and with the given keys left unprocessed (if any).\<close>

definition ex_page :: "nat list \<Rightarrow> nat list \<Rightarrow> nat BatchGetItemOutput" where
  "ex_page items unprocessed =
     \<lparr>Responses = fmupd ''T'' items fmempty,
      UnprocessedKeys =
        (if unprocessed = [] then fmempty else fmupd ''T'' (Some (ex_keys unprocessed)) fmempty)\<rparr>"

definition ex_request :: "nat list \<Rightarrow> nat BatchGetItemInput" where
  "ex_request ks = \<lparr>RequestItems = fmupd ''T'' (Some (ex_keys ks)) fmempty\<rparr>"

text \<open>\<^verbatim>\<open>table.Batch("ID").Get(Keys{1})\<close> and \<^verbatim>\<open>table.Batch("ID").Get(Keys{1}, Keys{2})\<close>.\<close>

definition ex_bg :: "nat BatchGet" where
  "ex_bg = Batch_Get ex_ops (Table_Batch ex_table [''ID'']) [\<lparr>HashKey = Some 1, RangeKey = None\<rparr>]"

definition ex_bg2 :: "nat BatchGet" where
  "ex_bg2 =
     Batch_Get ex_ops (Table_Batch ex_table [''ID''])
       [\<lparr>HashKey = Some 1, RangeKey = None\<rparr>, \<lparr>HashKey = Some 2, RangeKey = None\<rparr>]"

text \<open>\<^verbatim>\<open>table.Batch("ID").Get()\<close>: no key at all.\<close>

definition ex_bg0 :: "nat BatchGet" where
  "ex_bg0 = Batch_Get ex_ops (Table_Batch ex_table [''ID'']) []"

definition ex_world ::
  "(nat BatchGetItemOutput option \<times> error option) list
     \<Rightarrow> (nat, (nat BatchGetItemOutput option \<times> error option) list) world" where
  "ex_world script = \<lparr>remote = script, trace = []\<rparr>"

text \<open>
  Two states of an iterator in the middle of a run: after the only page of the one-key
  batch has been delivered, and after the first page of the two-key batch, which left
  the key 2 unprocessed, has been delivered.
\<close>

definition ex_itr_done :: "(nat, nat, nat list) bgIter" where
  "ex_itr_done =
     \<lparr>bg = ex_bg, input_itr = Some (ex_request [1]), output_itr = Some (ex_page [7] []),
      err = None, idx = 1, backoff = 0, unmarshal = append_item\<rparr>"

definition ex_itr_more :: "(nat, nat, nat list) bgIter" where
  "ex_itr_more =
     \<lparr>bg = ex_bg2, input_itr = Some (ex_request [1, 2]), output_itr = Some (ex_page [7] [2]),
      err = None, idx = 1, backoff = 0, unmarshal = append_item\<rparr>"

section \<open>Properties\<close>

subsection \<open>The concrete instances, evaluated\<close>

lemma ex_bg_value:
  "ex_bg = \<lparr>batch = \<lparr>table = \<lparr>Name = ''T''\<rparr>, hashKey = ''ID'', rangeKey = [], err_Batch = None\<rparr>,
            reqs = [1], projection = [], consistent = False, err_BatchGet = None\<rparr>"
  by (simp add: ex_bg_def Batch_Get_def Table_Batch_def ex_table_def ex_ops_def)

lemma ex_bg_input: "BatchGet_input ex_ops ex_bg = (Return (ex_request [1]), ex_bg)"
  by (simp add: ex_bg_value BatchGet_input_def ex_ops_def ex_request_def ex_keys_def)

lemma ex_bg_table: "Name (table (batch ex_bg)) = ''T''"
  by (simp add: ex_bg_value)

lemma ex_bg2_value:
  "ex_bg2 = \<lparr>batch = \<lparr>table = \<lparr>Name = ''T''\<rparr>, hashKey = ''ID'', rangeKey = [], err_Batch = None\<rparr>,
             reqs = [1, 2], projection = [], consistent = False, err_BatchGet = None\<rparr>"
  by (simp add: ex_bg2_def Batch_Get_def Table_Batch_def ex_table_def ex_ops_def Let_def)

lemma ex_bg2_input: "BatchGet_input ex_ops ex_bg2 = (Return (ex_request [1, 2]), ex_bg2)"
  by (simp add: ex_bg2_value BatchGet_input_def ex_ops_def ex_request_def ex_keys_def)

lemma ex_bg2_table: "Name (table (batch ex_bg2)) = ''T''"
  by (simp add: ex_bg2_value)

subsection \<open>The sticky error of a batch\<close>

lemma err_BatchGet_setError_sticky:
  "err_BatchGet b = Some e \<Longrightarrow> BatchGet_setError b e' = b"
  by (simp add: BatchGet_setError_def)

lemma err_BatchGet_add_sticky:
  "err_BatchGet b = Some e \<Longrightarrow> err_BatchGet (BatchGet_add D b keys) = Some e"
proof (induction keys arbitrary: b)
  case Nil
  then show ?case by simp
next
  case (Cons key keys)
  then show ?case
    by (simp add: Let_def err_BatchGet_setError_sticky)
qed

lemma Next_dead:
  "err itr \<noteq> None \<Longrightarrow> bgIter_Next D client p itr out w = Some (Return False, itr, out, w)"
  by (simp add: bgIter_Next_def)

lemma All_loop_dead:
  "err itr \<noteq> None \<Longrightarrow> All_loop D client p itr out w = Some (Return (), itr, out, w)"
  by (subst All_loop.simps) (simp add: Next_dead)

lemma All_sticky:
  "err_BatchGet b = Some e \<Longrightarrow>
     BatchGet_All D client p ua b out w = Some (Return (Some e), b, out, w)"
  by (simp add: BatchGet_All_def Let_def All_loop_dead newBGIter_def bgIter_Err_def)

lemma Table_Batch_few:
  "length names \<le> 2 \<Longrightarrow>
     Table_Batch tbl names =
       \<lparr>table = tbl,
        hashKey = (case names of [] \<Rightarrow> [] | h # _ \<Rightarrow> h),
        rangeKey = (case names of [_, r] \<Rightarrow> r | _ \<Rightarrow> []),
        err_Batch = None\<rparr>"
  by (auto simp: Table_Batch_def split: list.splits)

lemma Table_Batch_many:
  "3 \<le> length names \<Longrightarrow>
     Table_Batch tbl names =
       \<lparr>table = tbl, hashKey = [], rangeKey = [], err_Batch = Some too_many_keys\<rparr>"
proof -
  assume "3 \<le> length names"
  then obtain a b c rest where "names = a # b # c # rest"
    by (cases names; cases "tl names"; cases "tl (tl names)") auto
  then show ?thesis
    by (simp add: Table_Batch_def)
qed

text \<open>
  C8. \<^verbatim>\<open>Table.Batch\<close> with zero, one or two key names returns a batch without an error,
  the first name as hash key and the second as range key. With three or more names it
  returns a batch (it does not panic) whose error is the validation error; that error is
  the error of every \<^verbatim>\<open>BatchGet\<close> made from the batch by \<^verbatim>\<open>Get\<close>, \<^verbatim>\<open>And\<close> and
  \<^verbatim>\<open>Consistent\<close>; \<^verbatim>\<open>All\<close> returns it at once, touching neither \<^verbatim>\<open>out\<close> nor the
  transport, and an iterator from \<^verbatim>\<open>Iter\<close> answers false to its first \<^verbatim>\<open>Next\<close> and gives
  it as \<^verbatim>\<open>Err()\<close>.
\<close>

theorem Batch_key_names:
  "(length names \<le> 2 \<longrightarrow>
      Table_Batch tbl names =
        \<lparr>table = tbl,
         hashKey = (case names of [] \<Rightarrow> [] | h # _ \<Rightarrow> h),
         rangeKey = (case names of [_, r] \<Rightarrow> r | _ \<Rightarrow> []),
         err_Batch = None\<rparr>)
   \<and> (3 \<le> length names \<longrightarrow>
        err_Batch (Table_Batch tbl names) = Some too_many_keys
        \<and> err_BatchGet (Batch_Get D (Table_Batch tbl names) keys) = Some too_many_keys
        \<and> err_BatchGet (BatchGet_And D (Batch_Get D (Table_Batch tbl names) keys) keys2)
            = Some too_many_keys
        \<and> err_BatchGet (BatchGet_Consistent (Batch_Get D (Table_Batch tbl names) keys) on)
            = Some too_many_keys
        \<and> BatchGet_All D client canRetry unmarshalAppend
              (Batch_Get D (Table_Batch tbl names) keys) out w
            = Some (Return (Some too_many_keys), Batch_Get D (Table_Batch tbl names) keys, out, w)
        \<and> bgIter_Next D client canRetry
              (BatchGet_Iter unmarshalItem (Batch_Get D (Table_Batch tbl names) keys)) out w
            = Some (Return False,
                    BatchGet_Iter unmarshalItem (Batch_Get D (Table_Batch tbl names) keys), out, w)
        \<and> bgIter_Err (BatchGet_Iter unmarshalItem (Batch_Get D (Table_Batch tbl names) keys))
            = Some too_many_keys)"
proof (intro conjI impI)
  assume "length names \<le> 2"
  then show "Table_Batch tbl names =
        \<lparr>table = tbl,
         hashKey = (case names of [] \<Rightarrow> [] | h # _ \<Rightarrow> h),
         rangeKey = (case names of [_, r] \<Rightarrow> r | _ \<Rightarrow> []),
         err_Batch = None\<rparr>"
    by (rule Table_Batch_few)
next
  assume many: "3 \<le> length names"
  let ?b = "Table_Batch tbl names"
  let ?g = "Batch_Get D ?b keys"
  show b: "err_Batch ?b = Some too_many_keys"
    using many by (simp add: Table_Batch_many)
  show g: "err_BatchGet ?g = Some too_many_keys"
    unfolding Batch_Get_def by (rule err_BatchGet_add_sticky) (simp add: b)
  show "err_BatchGet (BatchGet_And D ?g keys2) = Some too_many_keys"
    unfolding BatchGet_And_def by (rule err_BatchGet_add_sticky) (rule g)
  show "err_BatchGet (BatchGet_Consistent ?g on) = Some too_many_keys"
    by (simp add: BatchGet_Consistent_def g)
  show "BatchGet_All D client canRetry unmarshalAppend ?g out w
            = Some (Return (Some too_many_keys), ?g, out, w)"
    by (rule All_sticky) (rule g)
  show "bgIter_Next D client canRetry (BatchGet_Iter unmarshalItem ?g) out w
            = Some (Return False, BatchGet_Iter unmarshalItem ?g, out, w)"
    by (rule Next_dead) (simp add: BatchGet_Iter_def newBGIter_def g)
  show "bgIter_Err (BatchGet_Iter unmarshalItem ?g) = Some too_many_keys"
    by (simp add: bgIter_Err_def BatchGet_Iter_def newBGIter_def g)
qed

text \<open>Two names give hash and range key; three names make \<^verbatim>\<open>All\<close> fail at once.\<close>

theorem Batch_key_names_witness:
  "Table_Batch ex_table [''ID'', ''Month'']
     = \<lparr>table = ex_table, hashKey = ''ID'', rangeKey = ''Month'', err_Batch = None\<rparr>
   \<and> BatchGet_All ex_ops scripted never_retry append_item
        (Batch_Get ex_ops (Table_Batch ex_table [''ID'', ''Month'', ''Day''])
           [\<lparr>HashKey = Some 1, RangeKey = None\<rparr>]) [] (ex_world [])
     = Some (Return (Some too_many_keys),
             Batch_Get ex_ops (Table_Batch ex_table [''ID'', ''Month'', ''Day''])
               [\<lparr>HashKey = Some 1, RangeKey = None\<rparr>], [], ex_world [])"
  using Batch_key_names [of "[''ID'', ''Month'']" ex_table]
    Batch_key_names [of "[''ID'', ''Month'', ''Day'']" ex_table ex_ops
      "[\<lparr>HashKey = Some 1, RangeKey = None\<rparr>]" _ _ scripted never_retry append_item "[]" "ex_world []"]
  by simp

subsection \<open>Building the request\<close>

text \<open>
  C10, as the code has it. With no request accumulated, \<^verbatim>\<open>input()\<close> leaves \<^verbatim>\<open>kas\<close> nil.
  With a projection expression set it then panics on \<^verbatim>\<open>kas.ProjectionExpression\<close>, a nil
  dereference. With no projection expression and the consistent-read flag off it returns
  a request with one table entry, the table's name bound to the nil descriptor.
\<close>

theorem input_no_keys:
  "reqs b = [] \<Longrightarrow>
     (projection b \<noteq> [] \<longrightarrow> BatchGet_input D b = (Panic NilDereference, b))
   \<and> (projection b = [] \<and> \<not> consistent b \<longrightarrow>
        BatchGet_input D b
          = (Return \<lparr>RequestItems = fmupd (Name (table (batch b))) None fmempty\<rparr>, b)
        \<and> fmdom (fmupd (Name (table (batch b))) (None :: 'a KeysAndAttributes option) fmempty)
            = {|Name (table (batch b))|})"
  by (simp add: BatchGet_input_def Let_def)

theorem input_no_keys_witness:
  "BatchGet_input ex_ops ex_bg0 = (Return \<lparr>RequestItems = fmupd ''T'' None fmempty\<rparr>, ex_bg0)
   \<and> BatchGet_input ex_ops (ex_bg0\<lparr>projection := ''Title''\<rparr>)
       = (Panic NilDereference, ex_bg0\<lparr>projection := ''Title''\<rparr>)"
  using input_no_keys [of ex_bg0 ex_ops] input_no_keys [of "ex_bg0\<lparr>projection := ''Title''\<rparr>" ex_ops]
  by (simp add: ex_bg0_def Batch_Get_def Table_Batch_def ex_table_def)

text \<open>
  The claim as stated fails where the consistent-read flag is on:
  \<^verbatim>\<open>table.Batch("ID").Get().Consistent(true)\<close> has no key and no projection expression, and
  \<^verbatim>\<open>input()\<close> panics on \<^verbatim>\<open>kas.ConsistentRead\<close> instead of returning a request.
\<close>

theorem input_no_keys_consistent_counterexample:
  "reqs (BatchGet_Consistent ex_bg0 True) = []
   \<and> projection (BatchGet_Consistent ex_bg0 True) = []
   \<and> BatchGet_input ex_ops (BatchGet_Consistent ex_bg0 True)
       = (Panic NilDereference, BatchGet_Consistent ex_bg0 True)"
  by (simp add: BatchGet_input_def BatchGet_Consistent_def ex_bg0_def Batch_Get_def)

subsection \<open>Runs of the iterator\<close>

text \<open>
  C1. The transport fails on the first request with the error \<^verbatim>\<open>timeout\<close> (and a response
  without items), and the retry policy gives up. \<^verbatim>\<open>Next\<close> returns false, but \<^verbatim>\<open>Err()\<close> is
  \<^verbatim>\<open>ErrNotFound\<close>: the cursor is 0, so the branch for a failed or empty fetch overwrites
  the error of the transport.
\<close>

theorem transport_error_overwritten:
  "map_option (\<lambda>(r, itr, out, w). (r, bgIter_Err itr, out, trace w))
     (bgIter_Next ex_ops scripted never_retry (newBGIter ex_bg append_item None) []
        (ex_world [(Some (ex_page [] []), Some (Errorf ''timeout''))]))
   = Some (Return False, Some ErrNotFound, [], [BatchGetItem (ex_request [1])])"
  by (simp add: bgIter_Next_def newBGIter_def ex_bg_input ex_world_def retry.simps
      call_BatchGetItem_def never_retry_def ex_page_def Responses_at_def bgIter_Err_def)

theorem transport_error_overwritten_witness:
  "map_option (\<lambda>(r, itr, out, w). bgIter_Err itr)
     (bgIter_Next ex_ops scripted never_retry (newBGIter ex_bg append_item None) []
        (ex_world [(Some (ex_page [] []), Some (Errorf ''timeout''))]))
   \<noteq> Some (Some (Errorf ''timeout''))"
  using transport_error_overwritten by (auto simp: map_option_case split: option.splits)

text \<open>
  C9. The transport fails on the first request and returns a nil response with the
  error. \<^verbatim>\<open>Next\<close> reads \<^verbatim>\<open>itr.output.Responses\<close> without a nil check and panics.
\<close>

theorem nil_response_panics:
  "map_option (\<lambda>(r, itr, out, w). (r, bgIter_Err itr, out, trace w))
     (bgIter_Next ex_ops scripted never_retry (newBGIter ex_bg append_item None) []
        (ex_world [(None, Some (Errorf ''timeout''))]))
   = Some (Panic NilDereference, Some (Errorf ''timeout''), [], [BatchGetItem (ex_request [1])])"
  by (simp add: bgIter_Next_def newBGIter_def ex_bg_input ex_world_def retry.simps
      call_BatchGetItem_def never_retry_def bgIter_Err_def)

theorem nil_response_panics_witness:
  "map_option fst
     (bgIter_Next ex_ops scripted never_retry (newBGIter ex_bg append_item None) []
        (ex_world [(None, Some (Errorf ''timeout''))]))
   = Some (Panic NilDereference)"
  using nil_response_panics by (auto simp: map_option_case split: option.splits)

subsection \<open>The retried transport call\<close>

text \<open>
  Whatever the number of attempts, the retried call changes nothing of the iterator but
  \<^verbatim>\<open>itr.output\<close>, and adds to the trace one or more sends of the same request.
\<close>

lemma retry_call_shape_aux:
  assumes "retry p f n s = Some y"
  shows "f = call_BatchGetItem client inp \<longrightarrow>
     (\<exists>outp k. fst (snd y) = (fst s)\<lparr>output_itr := outp\<rparr> \<and>
           trace (snd (snd y)) = trace (snd s) @ replicate (Suc k) (BatchGetItem inp))"
  using assms
proof (induct p f n s y rule: retry.raw_induct[rotated 1, consumes 1])
  case (1 rt p f n s y)
  show ?case
  proof
    assume f: "f = call_BatchGetItem client inp"
    obtain itr w where s: "s = (itr, w)" by (cases s)
    obtain outp e r' where c: "client (remote w) inp = ((outp, e), r')" by (metis prod.exhaust)
    let ?s' = "(itr\<lparr>output_itr := outp\<rparr>, w\<lparr>remote := r', trace := trace w @ [BatchGetItem inp]\<rparr>)"
    have fs: "f s = (e, ?s')"
      using f s c by (simp add: call_BatchGetItem_def)
    show "\<exists>outp k. fst (snd y) = (fst s)\<lparr>output_itr := outp\<rparr> \<and>
           trace (snd (snd y)) = trace (snd s) @ replicate (Suc k) (BatchGetItem inp)"
    proof (cases "\<exists>err. e = Some err \<and> p n err")
      case False
      with 1(2) fs have "y = (e, ?s')"
        by (auto split: option.splits if_splits)
      then show ?thesis using s
        by (auto intro: exI[of _ 0])
    next
      case True
      with 1(2) fs have a: "rt p f (Suc n) ?s' = Some y"
        by auto
      from 1(1)[OF a] f obtain outp' k where
        "fst (snd y) = itr\<lparr>output_itr := outp'\<rparr>"
        "trace (snd (snd y)) = (trace w @ [BatchGetItem inp]) @ replicate (Suc k) (BatchGetItem inp)"
        by auto
      then show ?thesis using s
        by (auto intro!: exI[of _ outp'] exI[of _ "Suc k"] simp: replicate_append_same)
    qed
  qed
qed

lemma retry_call_shape:
  assumes "retry p (call_BatchGetItem client inp) n (itr, w) = Some (e, itr', w')"
  shows "\<exists>outp k. itr' = itr\<lparr>output_itr := outp\<rparr> \<and>
           trace w' = trace w @ replicate (Suc k) (BatchGetItem inp)"
  using retry_call_shape_aux [OF assms, of client inp] by simp

lemma retry_first_ok:
  assumes "client (remote w) inp = ((outp, None), r')"
  shows "retry p (call_BatchGetItem client inp) n (itr, w) =
           Some (None, itr\<lparr>output_itr := outp\<rparr>,
                 w\<lparr>remote := r', trace := trace w @ [BatchGetItem inp]\<rparr>)"
  using assms by (subst retry.simps) (simp add: call_BatchGetItem_def)

subsection \<open>The first page\<close>

lemma Next_first_fetch:
  assumes "BatchGet_input D b = (Return inp, b')"
    and "retry canRetry (call_BatchGetItem client inp) 0
           ((newBGIter b' fn None)\<lparr>input_itr := Some inp\<rparr>, w) = Some (e, itr3, w3)"
    and "output_itr itr3 = Some outp"
    and "Responses_at outp (Name (table (batch b))) = []"
  shows "bgIter_Next D client canRetry (newBGIter b fn None) out w
           = Some (Return False, itr3\<lparr>err := Some ErrNotFound\<rparr>, out, w3)"
proof -
  from retry_call_shape [OF assms(2)] assms(3)
  have itr3: "itr3 = (newBGIter b' fn None)\<lparr>input_itr := Some inp, output_itr := Some outp\<rparr>"
    by auto
  have start: "(newBGIter b fn None)\<lparr>bg := b', input_itr := Some inp\<rparr>
                 = (newBGIter b' fn None)\<lparr>input_itr := Some inp\<rparr>"
    by (simp add: newBGIter_def)
  show ?thesis
    unfolding bgIter_Next_def
    using assms(1,2,4) by (simp add: start) (simp add: itr3 newBGIter_def)
qed

text \<open>
  C5. A batch without an error is iterated; building the request succeeds; the retried
  transport call returns, leaving a page with no item of the table (with or without an
  error). Then the first \<^verbatim>\<open>Next\<close> returns false, and \<^verbatim>\<open>Err()\<close> is \<^verbatim>\<open>ErrNotFound\<close>.
\<close>

theorem first_page_empty_not_found:
  assumes "err_BatchGet b = None"
    and "BatchGet_input D b = (Return inp, b')"
    and "retry canRetry (call_BatchGetItem client inp) 0
           ((newBGIter b' fn None)\<lparr>input_itr := Some inp\<rparr>, w) = Some (e, itr3, w3)"
    and "output_itr itr3 = Some outp"
    and "Responses_at outp (Name (table (batch b))) = []"
  shows "bgIter_Next D client canRetry (BatchGet_Iter fn b) out w
           = Some (Return False, itr3\<lparr>err := Some ErrNotFound\<rparr>, out, w3)
         \<and> bgIter_Err (itr3\<lparr>err := Some ErrNotFound\<rparr>) = Some ErrNotFound"
  using Next_first_fetch [OF assms(2-5)] assms(1)
  by (simp add: BatchGet_Iter_def bgIter_Err_def)

text \<open>One key, and a store that answers with an empty page and no unprocessed key.\<close>

theorem first_page_empty_not_found_witness:
  "err_BatchGet ex_bg = None
   \<and> BatchGet_input ex_ops ex_bg = (Return (ex_request [1]), ex_bg)
   \<and> Responses_at (ex_page [] []) (Name (table (batch ex_bg))) = []
   \<and> bgIter_Next ex_ops scripted never_retry (BatchGet_Iter append_item ex_bg) []
        (ex_world [(Some (ex_page [] []), None)])
       = Some (Return False,
               (newBGIter ex_bg append_item None)
                 \<lparr>input_itr := Some (ex_request [1]), output_itr := Some (ex_page [] []),
                  err := Some ErrNotFound\<rparr>,
               [],
               \<lparr>remote = [], trace = [BatchGetItem (ex_request [1])]\<rparr>)"
proof -
  have e: "err_BatchGet ex_bg = None"
    by (simp add: ex_bg_value)
  have r: "retry never_retry (call_BatchGetItem scripted (ex_request [1])) 0
             ((newBGIter ex_bg append_item None)\<lparr>input_itr := Some (ex_request [1])\<rparr>,
              ex_world [(Some (ex_page [] []), None)])
           = Some (None,
                   (newBGIter ex_bg append_item None)
                     \<lparr>input_itr := Some (ex_request [1]), output_itr := Some (ex_page [] [])\<rparr>,
                   \<lparr>remote = [], trace = [BatchGetItem (ex_request [1])]\<rparr>)"
    by (subst retry_first_ok [where outp = "Some (ex_page [] [])" and r' = "[]"])
      (simp_all add: ex_world_def)
  have o: "output_itr ((newBGIter ex_bg append_item None)
             \<lparr>input_itr := Some (ex_request [1]), output_itr := Some (ex_page [] [])\<rparr>)
           = Some (ex_page [] [])"
    by simp
  have p: "Responses_at (ex_page [] []) (Name (table (batch ex_bg))) = []"
    by (simp add: Responses_at_def ex_page_def ex_bg_value)
  from first_page_empty_not_found [OF e ex_bg_input r o p, of "[]"] e ex_bg_input p
  show ?thesis by simp
qed

subsection \<open>An empty page after a page with items\<close>

text \<open>
  C4. One key is requested; the first page holds the item 7 and leaves a key unprocessed,
  the second page holds no item. \<^verbatim>\<open>Next\<close> is called twice: the first call delivers the
  item, the second sleeps, fetches the second page, and returns false with \<^verbatim>\<open>Err()\<close> set
  to \<^verbatim>\<open>ErrNotFound\<close>: the cursor was reset to 0 for the new page, so the test
  \<^verbatim>\<open>itr.idx == 0\<close> cannot tell this page from the first one.
\<close>

theorem later_empty_page_not_found:
  "map_option (\<lambda>(rs, itr, out, w). (rs, bgIter_Err itr, out, trace w))
     (Next_calls ex_ops scripted never_retry 2 (newBGIter ex_bg append_item None) []
        (ex_world [(Some (ex_page [7] [1]), None), (Some (ex_page [] [1]), None)]))
   = Some ([Return True, Return False], Some ErrNotFound, [7],
           [BatchGetItem (ex_request [1]), Sleep 0, BatchGetItem (ex_request [1])])"
  by (simp add: numeral_2_eq_2 Let_def bgIter_Next_def newBGIter_def ex_bg_input ex_bg_table
      ex_world_def retry.simps call_BatchGetItem_def ex_page_def Responses_at_def bgIter_Err_def
      append_item_def ex_request_def)

theorem later_empty_page_not_found_witness:
  "map_option (\<lambda>(rs, itr, out, w). bgIter_Err itr)
     (Next_calls ex_ops scripted never_retry 2 (newBGIter ex_bg append_item None) []
        (ex_world [(Some (ex_page [7] [1]), None), (Some (ex_page [] [1]), None)]))
   = Some (Some ErrNotFound)"
  using later_empty_page_not_found by (auto simp: map_option_case split: option.splits)

subsection \<open>The cursor\<close>

lemma input_project_batch: "batch (input_project D b gets) = batch b"
  by (induction gets arbitrary: b) (simp_all add: Let_def BatchGet_setError_def)

lemma BatchGet_input_batch:
  "BatchGet_input D b = (r, b') \<Longrightarrow> batch b' = batch b"
  by (auto simp: BatchGet_input_def Let_def input_project_batch
      split: if_splits option.splits outcome.splits)



lemma input_present_Next:
  assumes "output_itr itr \<noteq> None \<longrightarrow> input_itr itr \<noteq> None"
    and "bgIter_Next D client p itr out w = Some (r, itr', out', w')"
  shows "output_itr itr' \<noteq> None \<longrightarrow> input_itr itr' \<noteq> None"
  using assms
  unfolding bgIter_Next_def
  by (auto simp: Let_def split: option.splits if_splits prod.splits outcome.splits
      dest!: retry_call_shape)






lemma Next_exhausted:
  assumes "err itr = None" and "output_itr itr = Some outp" and "input_itr itr = Some inp"
    and "length (Responses_at outp (Name (table (batch (bg itr))))) \<le> idx itr"
    and "fmdom (UnprocessedKeys outp) = {||}"
  shows "bgIter_Next D client p itr out w = Some (Return False, itr, out, w)"
  using assms by (simp add: bgIter_Next_def)

lemma Next_false_state:
  assumes "cursor_ok itr"
    and "bgIter_Next D client p itr out w = Some (Return False, itr', out', w')"
  shows "err itr' \<noteq> None \<or>
         (\<exists>outp inp. output_itr itr' = Some outp \<and> input_itr itr' = Some inp
            \<and> length (Responses_at outp (Name (table (batch (bg itr'))))) \<le> idx itr'
            \<and> fmdom (UnprocessedKeys outp) = {||})"
  using assms
  unfolding bgIter_Next_def cursor_ok_def current_items_def
  by (auto simp: Let_def split: option.splits if_splits prod.splits outcome.splits
      dest!: retry_call_shape BatchGet_input_batch)

lemma Next_false_again:
  assumes "cursor_ok itr"
    and "bgIter_Next D client p itr out w = Some (Return False, itr', out', w')"
  shows "bgIter_Next D client p itr' out2 w2 = Some (Return False, itr', out2, w2)"
proof (cases "err itr' = None")
  case True
  with Next_false_state [OF assms] show ?thesis
    by (auto simp: Next_exhausted)
next
  case False
  then show ?thesis
    by (rule Next_dead)
qed

text \<open>
  C6. The iterator is in a state with its cursor within the current page (every state a
  run from \<^verbatim>\<open>newBGIter\<close> reaches is, see \<open>cursor_ok_new\<close> and \<open>cursor_ok_Next\<close>), and
  \<^verbatim>\<open>Next\<close> returns false. Then any number of further calls, whatever the \<^verbatim>\<open>out\<close> they are
  given, all return false and leave the iterator (so the value of \<^verbatim>\<open>Err()\<close>), \<^verbatim>\<open>out\<close> and
  the world (no transport call, no sleep) as they were.
\<close>

theorem Next_false_is_final:
  assumes "cursor_ok itr"
    and "bgIter_Next D client canRetry itr out w = Some (Return False, itr', out', w')"
  shows "Next_calls D client canRetry n itr' out2 w2
           = Some (replicate n (Return False), itr', out2, w2)"
proof (induction n)
  case 0
  show ?case by simp
next
  case (Suc n)
  then show ?case
    by (simp add: Next_false_again [OF assms])
qed

text \<open>After its only page the iterator answers false, and keeps answering false.\<close>

theorem Next_false_is_final_witness:
  "cursor_ok ex_itr_done
   \<and> bgIter_Next ex_ops scripted never_retry ex_itr_done [7] (ex_world [])
       = Some (Return False, ex_itr_done, [7], ex_world [])
   \<and> Next_calls ex_ops scripted never_retry 3 ex_itr_done [7] (ex_world [])
       = Some ([Return False, Return False, Return False], ex_itr_done, [7], ex_world [])"
proof -
  have c: "cursor_ok ex_itr_done"
    by (simp add: cursor_ok_def current_items_def ex_itr_done_def ex_page_def Responses_at_def
        ex_bg_table)
  have n: "bgIter_Next ex_ops scripted never_retry ex_itr_done [7] (ex_world [])
             = Some (Return False, ex_itr_done, [7], ex_world [])"
    by (rule Next_exhausted [where outp = "ex_page [7] []" and inp = "ex_request [1]"])
      (simp_all add: ex_itr_done_def ex_page_def Responses_at_def ex_bg_table)
  from Next_false_is_final [OF c n, of 3 "[7]" "ex_world []"] c n
  show ?thesis by (simp add: numeral_3_eq_3)
qed






subsection \<open>Unprocessed keys\<close>

text \<open>
  C2. The iterator holds a page with unprocessed keys, and the request that page
  answered (a state with a page has one, see \<open>input_present_Next\<close>). As long as items of
  the page are left, or once a terminal error is set, \<^verbatim>\<open>Next\<close> leaves the world alone.
  Otherwise it sleeps for the next backoff interval and then runs the retried transport
  call on the request whose \<^verbatim>\<open>RequestItems\<close> are exactly the \<^verbatim>\<open>UnprocessedKeys\<close> of the
  page, with the cursor at 0, and it fails to return exactly when that retried call
  does. When it ends, the trace has grown by the sleep followed by one or more sends of
  that request, and by nothing else; the request is the iterator's pending one; and the
  cursor is 0 (nothing delivered) or 1, the first item of the new page having gone to
  \<^verbatim>\<open>unmarshal\<close>. The request holds the keys the store reported as unprocessed and no
  other, so no key of the earlier request that the store did answer.
\<close>

theorem unprocessed_keys_refetched:
  assumes "output_itr itr = Some outp"
    and "fmdom (UnprocessedKeys outp) \<noteq> {||}"
    and "input_itr itr = Some inp"
  shows "(bgIter_Next D client canRetry itr out w = None)
         = (err itr = None
            \<and> length (Responses_at outp (Name (table (batch (bg itr))))) \<le> idx itr
            \<and> retry canRetry
                (call_BatchGetItem client (inp\<lparr>RequestItems := UnprocessedKeys outp\<rparr>)) 0
                (itr\<lparr>input_itr := Some (inp\<lparr>RequestItems := UnprocessedKeys outp\<rparr>),
                      idx := 0, backoff := Suc (backoff itr)\<rparr>,
                 w\<lparr>trace := trace w @ [Sleep (backoff itr)]\<rparr>) = None)
       \<and> (\<forall>r itr' out' w'.
             bgIter_Next D client canRetry itr out w = Some (r, itr', out', w') \<longrightarrow>
               (if err itr = None
                   \<and> length (Responses_at outp (Name (table (batch (bg itr))))) \<le> idx itr
                then (\<exists>k. trace w' = trace w @ Sleep (backoff itr) #
                        replicate (Suc k)
                          (BatchGetItem (inp\<lparr>RequestItems := UnprocessedKeys outp\<rparr>)))
                   \<and> input_itr itr' = Some (inp\<lparr>RequestItems := UnprocessedKeys outp\<rparr>)
                   \<and> backoff itr' = Suc (backoff itr)
                   \<and> ((idx itr' = 0 \<and> r \<noteq> Return True \<and> out' = out)
                      \<or> (idx itr' = 1
                          \<and> (\<exists>outp' e. output_itr itr' = Some outp'
                                \<and> unmarshal itr
                                     (Responses_at outp' (Name (table (batch (bg itr)))) ! 0) out
                                   = (e, out')
                                \<and> r = Return (e = None))))
                else w' = w))"
proof (intro conjI allI impI)
  show "(bgIter_Next D client canRetry itr out w = None)
         = (err itr = None
            \<and> length (Responses_at outp (Name (table (batch (bg itr))))) \<le> idx itr
            \<and> retry canRetry
                (call_BatchGetItem client (inp\<lparr>RequestItems := UnprocessedKeys outp\<rparr>)) 0
                (itr\<lparr>input_itr := Some (inp\<lparr>RequestItems := UnprocessedKeys outp\<rparr>),
                      idx := 0, backoff := Suc (backoff itr)\<rparr>,
                 w\<lparr>trace := trace w @ [Sleep (backoff itr)]\<rparr>) = None)"
    using assms unfolding bgIter_Next_def
    by (auto simp: Let_def split: option.splits if_splits prod.splits outcome.splits)
next
  fix r itr' out' w'
  assume n: "bgIter_Next D client canRetry itr out w = Some (r, itr', out', w')"
  show "if err itr = None
                   \<and> length (Responses_at outp (Name (table (batch (bg itr))))) \<le> idx itr
                then (\<exists>k. trace w' = trace w @ Sleep (backoff itr) #
                        replicate (Suc k)
                          (BatchGetItem (inp\<lparr>RequestItems := UnprocessedKeys outp\<rparr>)))
                   \<and> input_itr itr' = Some (inp\<lparr>RequestItems := UnprocessedKeys outp\<rparr>)
                   \<and> backoff itr' = Suc (backoff itr)
                   \<and> ((idx itr' = 0 \<and> r \<noteq> Return True \<and> out' = out)
                      \<or> (idx itr' = 1
                          \<and> (\<exists>outp' e. output_itr itr' = Some outp'
                                \<and> unmarshal itr
                                     (Responses_at outp' (Name (table (batch (bg itr)))) ! 0) out
                                   = (e, out')
                                \<and> r = Return (e = None))))
                else w' = w"
  proof (cases "err itr = None
                   \<and> length (Responses_at outp (Name (table (batch (bg itr))))) \<le> idx itr")
    case False
    then show ?thesis
      using assms n unfolding bgIter_Next_def
      by (auto simp: Let_def split: option.splits if_splits prod.splits outcome.splits)
  next
    case True
    have 1: "\<exists>k. trace w' = trace w @ Sleep (backoff itr) #
                        replicate (Suc k)
                          (BatchGetItem (inp\<lparr>RequestItems := UnprocessedKeys outp\<rparr>))"
      using assms n True unfolding bgIter_Next_def
      by (auto simp: Let_def split: option.splits if_splits prod.splits outcome.splits
          dest!: retry_call_shape)
    have 2: "input_itr itr' = Some (inp\<lparr>RequestItems := UnprocessedKeys outp\<rparr>)"
      using assms n True unfolding bgIter_Next_def
      by (auto simp: Let_def split: option.splits if_splits prod.splits outcome.splits
          dest!: retry_call_shape)
    have 3: "backoff itr' = Suc (backoff itr)"
      using assms n True unfolding bgIter_Next_def
      by (auto simp: Let_def split: option.splits if_splits prod.splits outcome.splits
          dest!: retry_call_shape)
    have 4: "(idx itr' = 0 \<and> r \<noteq> Return True \<and> out' = out)
                      \<or> (idx itr' = 1
                          \<and> (\<exists>outp' e. output_itr itr' = Some outp'
                                \<and> unmarshal itr
                                     (Responses_at outp' (Name (table (batch (bg itr)))) ! 0) out
                                   = (e, out')
                                \<and> r = Return (e = None)))"
      using assms n True unfolding bgIter_Next_def
      by (auto simp: Let_def split: option.splits if_splits prod.splits outcome.splits
          dest!: retry_call_shape)
    from True 1 2 3 4 show ?thesis
      by simp
  qed
qed

text \<open>
  Two keys were requested, the page at hand delivered the item 7 and left the key 2
  unprocessed: the next call sleeps, asks for the key 2 alone, and delivers the item 8.
\<close>

theorem unprocessed_keys_refetched_witness:
  "err ex_itr_more = None
   \<and> output_itr ex_itr_more = Some (ex_page [7] [2])
   \<and> length (Responses_at (ex_page [7] [2]) (Name (table (batch (bg ex_itr_more)))))
       \<le> idx ex_itr_more
   \<and> fmdom (UnprocessedKeys (ex_page [7] [2])) \<noteq> {||}
   \<and> input_itr ex_itr_more = Some (ex_request [1, 2])
   \<and> (ex_request [1, 2])\<lparr>RequestItems := UnprocessedKeys (ex_page [7] [2])\<rparr> = ex_request [2]
   \<and> bgIter_Next ex_ops scripted never_retry ex_itr_more [7]
        (ex_world [(Some (ex_page [8] []), None)])
       = Some (Return True,
               ex_itr_more\<lparr>input_itr := Some (ex_request [2]),
                            output_itr := Some (ex_page [8] []), backoff := 1\<rparr>,
               [7, 8],
               \<lparr>remote = [], trace = [Sleep 0, BatchGetItem (ex_request [2])]\<rparr>)
   \<and> (\<exists>k. [Sleep 0, BatchGetItem (ex_request [2])]
             = Sleep 0 # replicate (Suc k) (BatchGetItem (ex_request [2])))"
proof -
  have h: "output_itr ex_itr_more = Some (ex_page [7] [2])"
    "fmdom (UnprocessedKeys (ex_page [7] [2])) \<noteq> {||}"
    "input_itr ex_itr_more = Some (ex_request [1, 2])"
    by (simp_all add: ex_itr_more_def ex_page_def)
  have c: "err ex_itr_more = None"
    "length (Responses_at (ex_page [7] [2]) (Name (table (batch (bg ex_itr_more)))))
       \<le> idx ex_itr_more"
    by (simp_all add: ex_itr_more_def ex_page_def Responses_at_def ex_bg2_table)
  have q: "(ex_request [1, 2])\<lparr>RequestItems := UnprocessedKeys (ex_page [7] [2])\<rparr> = ex_request [2]"
    by (simp add: ex_request_def ex_page_def)
  have n: "bgIter_Next ex_ops scripted never_retry ex_itr_more [7]
             (ex_world [(Some (ex_page [8] []), None)])
           = Some (Return True,
                   ex_itr_more\<lparr>input_itr := Some (ex_request [2]),
                                output_itr := Some (ex_page [8] []), backoff := 1\<rparr>,
                   [7, 8],
                   \<lparr>remote = [], trace = [Sleep 0, BatchGetItem (ex_request [2])]\<rparr>)"
    by (simp add: Let_def bgIter_Next_def ex_itr_more_def ex_bg2_table ex_world_def
        retry.simps call_BatchGetItem_def ex_page_def Responses_at_def append_item_def
        ex_request_def)
  from unprocessed_keys_refetched [OF h, of ex_ops scripted never_retry "[7]"
      "ex_world [(Some (ex_page [8] []), None)]", THEN conjunct2, rule_format, OF n]
  have "\<exists>k. trace \<lparr>remote = ([] :: (nat BatchGetItemOutput option \<times> error option) list),
                    trace = [Sleep 0, BatchGetItem (ex_request [2])]\<rparr>
             = trace (ex_world [(Some (ex_page [8] []), None)]) @ Sleep (backoff ex_itr_more) #
                 replicate (Suc k)
                   (BatchGetItem ((ex_request [1, 2])\<lparr>RequestItems := UnprocessedKeys (ex_page [7] [2])\<rparr>))"
    unfolding if_P [OF conjI [OF c]] by (rule conjunct1)
  then have "\<exists>k. [Sleep 0, BatchGetItem (ex_request [2])]
             = Sleep 0 # replicate (Suc k) (BatchGetItem (ex_request [2]))"
    by (simp add: q ex_world_def ex_itr_more_def)
  with h c q n show ?thesis
    by blast
qed

subsection \<open>Draining a batch\<close>

lemma paged_Cons:
  "paged t (page # pages) =
     (Responses_at page t \<noteq> []
      \<and> (if pages = [] then fmdom (UnprocessedKeys page) = {||}
         else fmdom (UnprocessedKeys page) \<noteq> {||} \<and> paged t pages))"
  by (cases pages) simp_all

lemma retry_first_ok_eval:
  "snd (fst (client (remote w) inp)) = None \<Longrightarrow>
     retry p (call_BatchGetItem client inp) n (itr, w) =
       Some (None, itr\<lparr>output_itr := fst (fst (client (remote w) inp))\<rparr>,
             w\<lparr>remote := snd (client (remote w) inp),
                trace := trace w @ [BatchGetItem inp]\<rparr>)"
  by (subst retry.simps) (auto simp: call_BatchGetItem_def split: prod.splits)

lemma Next_buffered:
  assumes "err itr = None" and "output_itr itr = Some page"
    and "idx itr < length (Responses_at page (Name (table (batch (bg itr)))))"
  shows "bgIter_Next D client p itr out w =
     (case unmarshal itr (Responses_at page (Name (table (batch (bg itr)))) ! idx itr) out of
        (e, out') \<Rightarrow> Some (Return (e = None), itr\<lparr>err := e, idx := Suc (idx itr)\<rparr>, out', w))"
  using assms by (simp add: bgIter_Next_def)

lemma Next_fetch_more:
  assumes "err itr = None" and "output_itr itr = Some page"
    and "length (Responses_at page (Name (table (batch (bg itr))))) \<le> idx itr"
    and "fmdom (UnprocessedKeys page) \<noteq> {||}"
    and "input_itr itr = Some inp"
    and "client (remote w) (inp\<lparr>RequestItems := UnprocessedKeys page\<rparr>) = ((Some page', None), r')"
    and "Responses_at page' (Name (table (batch (bg itr)))) \<noteq> []"
  shows "bgIter_Next D client p itr out w =
     (case unmarshal itr (Responses_at page' (Name (table (batch (bg itr)))) ! 0) out of
        (e, out') \<Rightarrow>
          Some (Return (e = None),
                itr\<lparr>input_itr := Some (inp\<lparr>RequestItems := UnprocessedKeys page\<rparr>),
                     output_itr := Some page', err := e, idx := Suc 0,
                     backoff := Suc (backoff itr)\<rparr>,
                out',
                w\<lparr>remote := r',
                   trace := trace w @ [Sleep (backoff itr),
                     BatchGetItem (inp\<lparr>RequestItems := UnprocessedKeys page\<rparr>)]\<rparr>))"
  using assms unfolding bgIter_Next_def
  by (simp add: Let_def retry_first_ok_eval split: prod.splits)

lemma Next_fetch_first:
  assumes "BatchGet_input D b = (Return inp, b')"
    and "client (remote w) inp = ((Some page', None), r')"
    and "Responses_at page' (Name (table (batch b))) \<noteq> []"
  shows "bgIter_Next D client p (newBGIter b fn None) out w =
     (case fn (Responses_at page' (Name (table (batch b))) ! 0) out of
        (e, out') \<Rightarrow>
          Some (Return (e = None),
                (newBGIter b' fn None)
                  \<lparr>input_itr := Some inp, output_itr := Some page', err := e, idx := Suc 0\<rparr>,
                out',
                w\<lparr>remote := r', trace := trace w @ [BatchGetItem inp]\<rparr>))"
  using assms unfolding bgIter_Next_def
  by (simp add: Let_def newBGIter_def retry_first_ok_eval split: prod.splits)

lemma All_loop_step:
  assumes "bgIter_Next D client p itr out w = Some (Return True, itr', out', w')"
  shows "All_loop D client p itr out w = All_loop D client p itr' out' w'"
  by (subst All_loop.simps) (simp add: assms)

lemma All_loop_stop:
  assumes "bgIter_Next D client p itr out w = Some (Return False, itr', out', w')"
  shows "All_loop D client p itr out w = Some (Return (), itr', out', w')"
  by (subst All_loop.simps) (simp add: assms)

text \<open>The loop delivers what is left of the current page without touching the world.\<close>

lemma All_loop_drain_page:
  assumes "err itr = None" and "output_itr itr = Some page"
    and "\<forall>item out. unmarshal itr item out = (None, out @ [decode item])"
    and "items = Responses_at page (Name (table (batch (bg itr))))"
    and "length items - idx itr = n" and "idx itr \<le> length items"
  shows "All_loop D client p itr out w
           = All_loop D client p (itr\<lparr>idx := length items\<rparr>)
               (out @ map decode (drop (idx itr) items)) w"
  using assms
proof (induction n arbitrary: itr out)
  case 0
  then have "idx itr = length items" by simp
  then have same: "itr\<lparr>idx := length items\<rparr> = itr" by simp
  show ?case
    unfolding same using \<open>idx itr = length items\<close> by simp
next
  case (Suc n)
  let ?i = "idx itr"
  let ?itr' = "itr\<lparr>idx := Suc ?i\<rparr>"
  from Suc.prems have lt: "?i < length items" by simp
  have keep: "itr\<lparr>err := None, idx := Suc ?i\<rparr> = ?itr'"
    using Suc.prems(1) by (cases itr) simp
  have nx: "bgIter_Next D client p itr out w
              = Some (Return True, ?itr', out @ [decode (items ! ?i)], w)"
    using Suc.prems(1,2,3,4) lt
    by (simp add: Next_buffered [where page = page] keep)
  have ih: "All_loop D client p ?itr' (out @ [decode (items ! ?i)]) w
              = All_loop D client p (?itr'\<lparr>idx := length items\<rparr>)
                  ((out @ [decode (items ! ?i)]) @ map decode (drop (idx ?itr') items)) w"
    using Suc.prems lt by (intro Suc.IH) simp_all
  have "map decode (drop ?i items) = decode (items ! ?i) # map decode (drop (Suc ?i) items)"
    using lt by (simp add: Cons_nth_drop_Suc [symmetric])
  then show ?case
    by (simp add: All_loop_step [OF nx] ih)
qed

text \<open>
  From the end of a page on: the pages still to come are fetched and delivered one after
  the other, and the loop stops after the last.
\<close>

lemma All_loop_pages:
  assumes "serves client (remote w) (inp\<lparr>RequestItems := UnprocessedKeys page\<rparr>) pages"
    and "if pages = [] then fmdom (UnprocessedKeys page) = {||}
         else fmdom (UnprocessedKeys page) \<noteq> {||} \<and> paged (Name (table (batch (bg itr)))) pages"
    and "err itr = None" and "output_itr itr = Some page" and "input_itr itr = Some inp"
    and "idx itr = length (Responses_at page (Name (table (batch (bg itr)))))"
    and "\<forall>item out. unmarshal itr item out = (None, out @ [decode item])"
  shows "\<exists>itr' w'. All_loop D client p itr out w
           = Some (Return (), itr',
                   out @ map decode (items_of (Name (table (batch (bg itr)))) pages), w')
         \<and> err itr' = None \<and> bg itr' = bg itr"
  using assms
proof (induction pages arbitrary: itr out w page inp)
  case Nil
  then have "bgIter_Next D client p itr out w = Some (Return False, itr, out, w)"
    by (intro Next_exhausted [where outp = page and inp = inp]) simp_all
  from All_loop_stop [OF this] Nil.prems(3) show ?case
    by (simp add: items_of_def)
next
  case (Cons page' pages)
  let ?t = "Name (table (batch (bg itr)))"
  let ?req = "inp\<lparr>RequestItems := UnprocessedKeys page\<rparr>"
  let ?items = "Responses_at page' ?t"
  from Cons.prems(1) obtain r' where
    cl: "client (remote w) ?req = ((Some page', None), r')"
    and sv: "serves client r' (?req\<lparr>RequestItems := UnprocessedKeys page'\<rparr>) pages"
    by (auto split: prod.splits option.splits)
  from Cons.prems(2) have unp: "fmdom (UnprocessedKeys page) \<noteq> {||}"
    and pg: "paged ?t (page' # pages)"
    by simp_all
  from pg have ne: "?items \<noteq> []"
    and rest: "if pages = [] then fmdom (UnprocessedKeys page') = {||}
               else fmdom (UnprocessedKeys page') \<noteq> {||} \<and> paged ?t pages"
    by (simp_all add: paged_Cons)
  let ?itr1 = "itr\<lparr>input_itr := Some ?req, output_itr := Some page', err := None,
                    idx := Suc 0, backoff := Suc (backoff itr)\<rparr>"
  let ?w1 = "w\<lparr>remote := r', trace := trace w @ [Sleep (backoff itr), BatchGetItem ?req]\<rparr>"
  let ?out1 = "out @ [decode (?items ! 0)]"
  have nx: "bgIter_Next D client p itr out w = Some (Return True, ?itr1, ?out1, ?w1)"
    using Cons.prems(3,4,5,6,7) unp cl ne
    by (simp add: Next_fetch_more [where page = page and inp = inp and page' = page' and r' = r'])
  have drain: "All_loop D client p ?itr1 ?out1 ?w1
                 = All_loop D client p (?itr1\<lparr>idx := length ?items\<rparr>)
                     (?out1 @ map decode (drop (idx ?itr1) ?items)) ?w1"
    using Cons.prems(7) ne
    by (intro All_loop_drain_page [where page = page' and n = "length ?items - 1"])
      (simp_all add: Suc_le_eq)
  have all: "?out1 @ map decode (drop (idx ?itr1) ?items) = out @ map decode ?items"
    using ne by (cases ?items) simp_all
  have "\<exists>itr' w'. All_loop D client p (?itr1\<lparr>idx := length ?items\<rparr>)
                     (out @ map decode ?items) ?w1
           = Some (Return (), itr',
                   (out @ map decode ?items)
                     @ map decode (items_of (Name (table (batch (bg (?itr1\<lparr>idx := length ?items\<rparr>))))) pages),
                   w')
         \<and> err itr' = None \<and> bg itr' = bg (?itr1\<lparr>idx := length ?items\<rparr>)"
    using sv rest Cons.prems(7)
    by (intro Cons.IH [where page = page' and inp = "?req"]) simp_all
  then obtain itr' w' where
    fin: "All_loop D client p (?itr1\<lparr>idx := length ?items\<rparr>) (out @ map decode ?items) ?w1
           = Some (Return (), itr',
                   (out @ map decode ?items) @ map decode (items_of ?t pages), w')"
    and keep: "err itr' = None" "bg itr' = bg itr"
    by auto
  have "All_loop D client p itr out w = All_loop D client p ?itr1 ?out1 ?w1"
    by (rule All_loop_step [OF nx])
  also have "\<dots> = All_loop D client p (?itr1\<lparr>idx := length ?items\<rparr>)
                     (?out1 @ map decode (drop (idx ?itr1) ?items)) ?w1"
    by (rule drain)
  also have "\<dots> = All_loop D client p (?itr1\<lparr>idx := length ?items\<rparr>)
                     (out @ map decode ?items) ?w1"
    by (simp only: all)
  also note fin
  finally have "All_loop D client p itr out w
                  = Some (Return (), itr',
                          out @ map decode (items_of ?t (page' # pages)), w')"
    by (simp add: items_of_def)
  with keep show ?case
    by blast
qed

text \<open>
  C3, as the code has it. The batch has no error and its request is built without a
  panic; the transport answers the requests of the batch with the pages \<open>pages\<close>, without
  an error; every page holds at least one item of the table, every page but the last
  has unprocessed keys and the last has none; \<^verbatim>\<open>unmarshalAppend\<close> decodes every item
  without an error and appends it. Then \<^verbatim>\<open>All\<close> returns a nil error, and \<^verbatim>\<open>out\<close> has
  grown by the decoded items of all pages, in the order of their return: by N items when
  the transport returns N. \<^verbatim>\<open>All\<close> is the loop of \<^verbatim>\<open>Next\<close> calls on a new iterator,
  followed by \<^verbatim>\<open>Err\<close>, by its definition.
\<close>

theorem All_delivers_every_item:
  assumes "err_BatchGet b = None"
    and "BatchGet_input D b = (Return inp, b')"
    and "serves client (remote w) inp pages"
    and "paged (Name (table (batch b))) pages"
    and "\<forall>item out. unmarshalAppend item out = (None, out @ [decode item])"
  shows "\<exists>w'. BatchGet_All D client canRetry unmarshalAppend b out w
           = Some (Return None, b',
                   out @ map decode (items_of (Name (table (batch b))) pages), w')"
proof -
  let ?t = "Name (table (batch b))"
  from assms(4) obtain page rest where pages: "pages = page # rest"
    by (cases pages) simp_all
  let ?items = "Responses_at page ?t"
  from assms(3) pages obtain r' where
    cl: "client (remote w) inp = ((Some page, None), r')"
    and sv: "serves client r' (inp\<lparr>RequestItems := UnprocessedKeys page\<rparr>) rest"
    by (auto split: prod.splits option.splits)
  from assms(4) pages have ne: "?items \<noteq> []"
    and more: "if rest = [] then fmdom (UnprocessedKeys page) = {||}
               else fmdom (UnprocessedKeys page) \<noteq> {||} \<and> paged ?t rest"
    by (simp_all add: paged_Cons)
  have t: "Name (table (batch b')) = ?t"
    using BatchGet_input_batch [OF assms(2)] by simp
  let ?itr0 = "newBGIter b unmarshalAppend None"
  let ?itr1 = "(newBGIter b' unmarshalAppend None)
                 \<lparr>input_itr := Some inp, output_itr := Some page, err := None, idx := Suc 0\<rparr>"
  let ?w1 = "w\<lparr>remote := r', trace := trace w @ [BatchGetItem inp]\<rparr>"
  let ?out1 = "out @ [decode (?items ! 0)]"
  have nx: "bgIter_Next D client canRetry ?itr0 out w = Some (Return True, ?itr1, ?out1, ?w1)"
    using assms(2,5) cl ne
    by (simp add: Next_fetch_first [where inp = inp and b' = b' and page' = page and r' = r'])
  have drain: "All_loop D client canRetry ?itr1 ?out1 ?w1
                 = All_loop D client canRetry (?itr1\<lparr>idx := length ?items\<rparr>)
                     (?out1 @ map decode (drop (idx ?itr1) ?items)) ?w1"
    using assms(5) ne t
    by (intro All_loop_drain_page [where page = page and n = "length ?items - 1"])
      (simp_all add: Suc_le_eq newBGIter_def)
  have all: "?out1 @ map decode (drop (idx ?itr1) ?items) = out @ map decode ?items"
    using ne by (cases ?items) simp_all
  have "\<exists>itr' w'. All_loop D client canRetry (?itr1\<lparr>idx := length ?items\<rparr>)
                     (out @ map decode ?items) ?w1
           = Some (Return (), itr',
                   (out @ map decode ?items)
                     @ map decode (items_of (Name (table (batch (bg (?itr1\<lparr>idx := length ?items\<rparr>))))) rest),
                   w')
         \<and> err itr' = None \<and> bg itr' = bg (?itr1\<lparr>idx := length ?items\<rparr>)"
    using sv more assms(5) t
    by (intro All_loop_pages [where page = page and inp = inp]) (simp_all add: newBGIter_def)
  then obtain itr' w' where
    fin: "All_loop D client canRetry (?itr1\<lparr>idx := length ?items\<rparr>)
            (out @ map decode ?items) ?w1
           = Some (Return (), itr', (out @ map decode ?items) @ map decode (items_of ?t rest), w')"
    and keep: "err itr' = None" "bg itr' = b'"
    by (auto simp: newBGIter_def t)
  have "All_loop D client canRetry ?itr0 out w = All_loop D client canRetry ?itr1 ?out1 ?w1"
    by (rule All_loop_step [OF nx])
  also have "\<dots> = All_loop D client canRetry (?itr1\<lparr>idx := length ?items\<rparr>)
                     (?out1 @ map decode (drop (idx ?itr1) ?items)) ?w1"
    by (rule drain)
  also have "\<dots> = All_loop D client canRetry (?itr1\<lparr>idx := length ?items\<rparr>)
                     (out @ map decode ?items) ?w1"
    by (simp only: all)
  also note fin
  finally have "All_loop D client canRetry ?itr0 out w
                  = Some (Return (), itr', out @ map decode (items_of ?t pages), w')"
    by (simp add: items_of_def pages)
  with keep assms(1) show ?thesis
    by (simp add: BatchGet_All_def bgIter_Err_def)
qed

text \<open>
  Two keys; the first page holds the item 7 and leaves the key 2 unprocessed, the second
  page holds the item 8.
\<close>

theorem All_delivers_every_item_witness:
  "err_BatchGet ex_bg2 = None
   \<and> BatchGet_input ex_ops ex_bg2 = (Return (ex_request [1, 2]), ex_bg2)
   \<and> serves scripted [(Some (ex_page [7] [2]), None), (Some (ex_page [8] []), None)]
        (ex_request [1, 2]) [ex_page [7] [2], ex_page [8] []]
   \<and> paged ''T'' [ex_page [7] [2], ex_page [8] []]
   \<and> (\<exists>w'. BatchGet_All ex_ops scripted never_retry append_item ex_bg2 []
               (ex_world [(Some (ex_page [7] [2]), None), (Some (ex_page [8] []), None)])
             = Some (Return None, ex_bg2, [7, 8], w'))"
proof -
  have e: "err_BatchGet ex_bg2 = None"
    by (simp add: ex_bg2_value)
  have s: "serves scripted
             (remote (ex_world [(Some (ex_page [7] [2]), None), (Some (ex_page [8] []), None)]))
             (ex_request [1, 2]) [ex_page [7] [2], ex_page [8] []]"
    by (simp add: ex_world_def)
  have p: "paged (Name (table (batch ex_bg2))) [ex_page [7] [2], ex_page [8] []]"
    by (simp add: ex_bg2_table ex_page_def Responses_at_def)
  have u: "\<forall>item out. append_item item out = (None, out @ [id item])"
    by (simp add: append_item_def)
  from All_delivers_every_item [OF e ex_bg2_input s p u, of never_retry "[]"] e ex_bg2_input s p
  show ?thesis
    by (simp add: items_of_def ex_bg2_table ex_page_def Responses_at_def ex_world_def)
qed

text \<open>
  The claim as stated fails where a page holds no item. One key is requested; the first
  page holds nothing and leaves the key unprocessed, the second page holds the item 7 and
  leaves nothing unprocessed: the transport returns the one item, over two pages, and
  there is no decode error. \<^verbatim>\<open>All\<close> stops at the first page, appends nothing and returns
  \<^verbatim>\<open>ErrNotFound\<close>; the second page is never asked for.
\<close>

theorem All_empty_first_page_counterexample:
  "err_BatchGet ex_bg = None
   \<and> serves scripted [(Some (ex_page [] [1]), None), (Some (ex_page [7] []), None)]
        (ex_request [1]) [ex_page [] [1], ex_page [7] []]
   \<and> items_of ''T'' [ex_page [] [1], ex_page [7] []] = [7]
   \<and> fmdom (UnprocessedKeys (ex_page [7] [])) = {||}
   \<and> BatchGet_All ex_ops scripted never_retry append_item ex_bg []
        (ex_world [(Some (ex_page [] [1]), None), (Some (ex_page [7] []), None)])
       = Some (Return (Some ErrNotFound), ex_bg, [],
               \<lparr>remote = [(Some (ex_page [7] []), None)],
                trace = [BatchGetItem (ex_request [1])]\<rparr>)"
proof -
  have n: "bgIter_Next ex_ops scripted never_retry (newBGIter ex_bg append_item None) []
             (ex_world [(Some (ex_page [] [1]), None), (Some (ex_page [7] []), None)])
           = Some (Return False,
                   (newBGIter ex_bg append_item None)
                     \<lparr>input_itr := Some (ex_request [1]), output_itr := Some (ex_page [] [1]),
                      err := Some ErrNotFound\<rparr>,
                   [],
                   \<lparr>remote = [(Some (ex_page [7] []), None)],
                    trace = [BatchGetItem (ex_request [1])]\<rparr>)"
    by (simp add: Let_def bgIter_Next_def newBGIter_def ex_bg_input ex_bg_table ex_world_def
        retry.simps call_BatchGetItem_def ex_page_def Responses_at_def)
  have e: "err_BatchGet ex_bg = None"
    by (simp add: ex_bg_value)
  have a: "BatchGet_All ex_ops scripted never_retry append_item ex_bg []
        (ex_world [(Some (ex_page [] [1]), None), (Some (ex_page [7] []), None)])
       = Some (Return (Some ErrNotFound), ex_bg, [],
               \<lparr>remote = [(Some (ex_page [7] []), None)],
                trace = [BatchGetItem (ex_request [1])]\<rparr>)"
    unfolding BatchGet_All_def Let_def e All_loop_stop [OF n]
    by (simp add: bgIter_Err_def newBGIter_def)
  have s: "serves scripted [(Some (ex_page [] [1]), None), (Some (ex_page [7] []), None)]
        (ex_request [1]) [ex_page [] [1], ex_page [7] []]"
    by simp
  have i: "items_of ''T'' [ex_page [] [1], ex_page [7] []] = [7]"
    "fmdom (UnprocessedKeys (ex_page [7] [])) = {||}"
    by (simp_all add: items_of_def ex_page_def Responses_at_def)
  from e s i a show ?thesis
    by blast
qed

end
